theory Spec2Isabelle
  imports Complex_Main "HOL-Library.Signed_Division"
begin

section \<open>Errors and log entries\<close>

text \<open>
  Every \<open>throw\<close> of the sources is a value of \<open>error\<close>. \<open>External\<close> stands for
  an error raised by a collaborator whose code is not part of the sources (the
  transaction pool, the forger, the validator package, ...).
\<close>

datatype error =
    MissingGenesisBlock
  | ModuleAlreadyExists nat
  | WaitThresholdTooLarge int int
  | SchemaErrors "string list"
  | TypeError string
  | InvalidNonce
  | InvalidFee
  | InvalidNumberOfSignatures
  | TooManyMandatoryKeys
  | NumberOfSignaturesTooBig
  | InvalidNumberOfKeys
  | RepeatedAcrossSets "string list"
  | RepeatedMandatoryKeys
  | RepeatedOptionalKeys
  | InvalidNetworkIdentifier
  | NotFound
  | External string

datatype level = Trace | Debug | Info | Warn | ErrorLevel | Fatal

text \<open>A log call: the level, the message and, where the call passes one, the error.\<close>

datatype log_entry = Log level string | LogErr level error string

text \<open>
  \<open>try { body } catch (err) { handler }\<close> over a state \<open>'s\<close>: a computation returns
  its outcome (\<open>Inl\<close> the thrown error) together with the state it leaves, since the
  sources mutate fields in place before they throw.
\<close>

definition try_catch ::
  "('s \<Rightarrow> (error + 'a) \<times> 's) \<Rightarrow> (error \<Rightarrow> 's \<Rightarrow> (error + 'a) \<times> 's) \<Rightarrow> 's \<Rightarrow> (error + 'a) \<times> 's" where
  "try_catch body handler s =
     (case body s of
        (Inl err, s') \<Rightarrow> handler err s'
      | (Inr v, s') \<Rightarrow> (Inr v, s'))"

section \<open>Node bootstrap (node.ts, \<open>Node.bootstrap\<close>)\<close>

record account_schema =
  properties :: string
  fieldNumber :: "nat option"

text \<open>
  A custom module instance, as far as \<open>bootstrap\<close> reads it: \<open>id\<close>, \<open>name\<close> and
  the optional \<open>accountSchema\<close>. The node holds the module classes and instantiates
  each with the genesis configuration; the model holds the instances.
\<close>

record base_module =
  moduleID :: nat
  moduleName :: string
  accountSchema :: "account_schema option"

text \<open>
  The fields of \<open>Node\<close> that \<open>bootstrap\<close> reads and writes before it builds the chain.
  \<open>waitThreshold\<close> is \<open>options.forging.waitThreshold\<close> and \<open>blockTime\<close> is
  \<open>options.genesisConfig.blockTime\<close>, both integers of the configuration.
\<close>

record boot_node =
  genesisBlockJSON :: "string option"
  customModules :: "base_module list"
  registeredModules :: "base_module list"
  registeredAccountSchemas :: "string \<rightharpoonup> account_schema"
  waitThreshold :: int
  blockTime :: int
  boot_logs :: "log_entry list"

text \<open>The constructor and the field initialisers: nothing is registered yet.\<close>

definition new_Node :: "string option \<Rightarrow> int \<Rightarrow> int \<Rightarrow> base_module list \<Rightarrow> boot_node" where
  "new_Node json wt bt mods =
     \<lparr> genesisBlockJSON = json, customModules = mods, registeredModules = [],
       registeredAccountSchemas = Map.empty, waitThreshold = wt, blockTime = bt,
       boot_logs = [] \<rparr>"

text \<open>
  The write \<open>this._registeredAccountSchemas[customModule.name] = {...}\<close>. The table is a
  plain object and the map models its own keys: a write under the name \<open>__proto__\<close>
  sets the object's prototype and adds no key.
\<close>

definition registerSchema :: "base_module \<Rightarrow> (string \<rightharpoonup> account_schema) \<Rightarrow> (string \<rightharpoonup> account_schema)" where
  "registerSchema m tbl =
     (case accountSchema m of
        None \<Rightarrow> tbl
      | Some s \<Rightarrow>
          if moduleName m = ''__proto__'' then tbl
          else tbl(moduleName m \<mapsto> s\<lparr>fieldNumber := Some (moduleID m)\<rparr>))"

text \<open>
  The \<open>for (const CustomModule of this._customModules)\<close> loop. The fields are mutated in
  place, so a throw leaves the modules registered so far in the node.
\<close>

fun registerCustomModules :: "base_module list \<Rightarrow> boot_node \<Rightarrow> (error + unit) \<times> boot_node" where
  "registerCustomModules [] n = (Inr (), n)"
| "registerCustomModules (m # ms) n =
     (case find (\<lambda>rm. moduleID rm = moduleID m) (registeredModules n) of
        Some exist \<Rightarrow> (Inl (ModuleAlreadyExists (moduleID m)), n)
      | None \<Rightarrow>
          registerCustomModules ms
            (n\<lparr>registeredAccountSchemas := registerSchema m (registeredAccountSchemas n),
               registeredModules := registeredModules n @ [m]\<rparr>))"

definition checkWaitThreshold :: "boot_node \<Rightarrow> error + unit" where
  "checkWaitThreshold n =
     (if waitThreshold n \<ge> blockTime n
      then Inl (WaitThresholdTooLarge (waitThreshold n) (blockTime n))
      else Inr ())"

text \<open>
  The body of the \<open>try\<close> block. \<open>readGenesisBlockJSON\<close> belongs to the chain package and
  may throw; \<open>launch\<close> is everything after the threshold check (building the chain and
  the other components, registering the modules with the processor, starting the
  network, loading the blockchain). Both are parameters.
\<close>

definition bootstrap_after_registration ::
  "(string \<Rightarrow> (string \<rightharpoonup> account_schema) \<Rightarrow> error + 'g) \<Rightarrow>
   ('g \<Rightarrow> boot_node \<Rightarrow> (error + unit) \<times> boot_node) \<Rightarrow> string \<Rightarrow> boot_node \<Rightarrow>
   (error + unit) \<times> boot_node" where
  "bootstrap_after_registration readGenesisBlockJSON launch json n =
     (case readGenesisBlockJSON json (registeredAccountSchemas n) of
        Inl e \<Rightarrow> (Inl e, n)
      | Inr genesisBlock \<Rightarrow>
          (case checkWaitThreshold n of
             Inl e \<Rightarrow> (Inl e, n)
           | Inr u \<Rightarrow> launch genesisBlock n))"

definition bootstrap_try ::
  "(string \<Rightarrow> (string \<rightharpoonup> account_schema) \<Rightarrow> error + 'g) \<Rightarrow>
   ('g \<Rightarrow> boot_node \<Rightarrow> (error + unit) \<times> boot_node) \<Rightarrow> boot_node \<Rightarrow>
   (error + unit) \<times> boot_node" where
  "bootstrap_try readGenesisBlockJSON launch n =
     (case genesisBlockJSON n of
        None \<Rightarrow> (Inl MissingGenesisBlock, n)
      | Some json \<Rightarrow>
          (case registerCustomModules (customModules n) n of
             (Inl e, n1) \<Rightarrow> (Inl e, n1)
           | (Inr u, n1) \<Rightarrow> bootstrap_after_registration readGenesisBlockJSON launch json n1))"

text \<open>The \<open>catch\<close> of \<open>bootstrap\<close>: log at level fatal and rethrow.\<close>

definition bootstrap ::
  "(string \<Rightarrow> (string \<rightharpoonup> account_schema) \<Rightarrow> error + 'g) \<Rightarrow>
   ('g \<Rightarrow> boot_node \<Rightarrow> (error + unit) \<times> boot_node) \<Rightarrow> boot_node \<Rightarrow>
   (error + unit) \<times> boot_node" where
  "bootstrap readGenesisBlockJSON launch =
     try_catch (bootstrap_try readGenesisBlockJSON launch)
       (\<lambda>err n. (Inl err,
          n\<lparr>boot_logs := boot_logs n @ [LogErr Fatal err ''Failed to initialization node'']\<rparr>))"

section \<open>The running node (node.ts)\<close>

record transaction =
  tx_id :: string
  senderPublicKey :: string
  tx_nonce :: nat

record block =
  block_id :: string
  height :: nat
  version :: nat
  maxHeightPrevoted :: nat
  payload :: "transaction list"

record account =
  address :: string
  account_nonce :: nat

text \<open>
  What the handlers of \<open>Node\<close> touch: the synchronizer's \<open>isActive\<close> flag, the content of
  the transaction pool, the stored blocks of the chain, the logger, the events published
  on the channel, the node info last applied to the network module, the penalties applied
  to peers (\<open>app:applyPenaltyOnPeer\<close> with \<open>peerId\<close> and \<open>penalty\<close>), and the
  transport's \<open>broadcasts.active\<close> option.
\<close>

record node =
  synchronizer_isActive :: bool
  pool :: "transaction list"
  chain_blocks :: "block list"
  logs :: "log_entry list"
  published :: "(string \<times> block \<times> account list) list"
  nodeInfo :: "(nat \<times> string \<times> nat \<times> nat) option"
  penalties :: "(string \<times> nat) list"
  broadcasts_active :: bool

definition logger :: "log_entry \<Rightarrow> node \<Rightarrow> node" where
  "logger e st = st\<lparr>logs := logs st @ [e]\<rparr>"

subsection \<open>\<open>Node._forgingTask\<close>\<close>

text \<open>
  The forger is not part of the sources: its \<open>delegatesEnabled\<close> and \<open>forge\<close> are
  parameters, and either may throw. \<open>forge\<close> may change any part of the node.
\<close>

definition forgingTask ::
  "(node \<Rightarrow> error + bool) \<Rightarrow> (node \<Rightarrow> (error + unit) \<times> node) \<Rightarrow> node \<Rightarrow> (error + unit) \<times> node" where
  "forgingTask delegatesEnabled forge =
     try_catch
       (\<lambda>st. case delegatesEnabled st of
                Inl err \<Rightarrow> (Inl err, st)
              | Inr enabled \<Rightarrow>
                  if \<not> enabled then (Inr (), logger (Log Trace ''No delegates are enabled'') st)
                  else if synchronizer_isActive st
                  then (Inr (), logger (Log Debug ''Client not ready to forge'') st)
                  else forge st)
       (\<lambda>err st. (Inr (), logger (LogErr ErrorLevel err []) st))"

subsection \<open>The handler of \<open>EVENT_NEW_BLOCK\<close>\<close>

record block_event =
  ev_block :: block
  ev_accounts :: "account list"

text \<open>
  Modelled from the spec: \<open>TransactionPool.remove\<close> belongs to the transaction pool
  package, which is not among the sources; the handler below only shows that it is called
  once for each transaction of the applied payload. The specification has the pool "evict
  on \<open>NewBlock\<close> any tx whose id appears in the applied payload, and any tx from the same
  sender with \<open>nonce < account.nonce\<close>", and has the pool read the chain through its
  \<open>DataAccess\<close> view: \<open>accountNonce\<close> is that view, the on-chain nonce of a sender.
  Removing a transaction evicts the pool entry with its id and the entries of its sender
  whose nonce is below the sender's on-chain nonce.
\<close>

definition pool_remove :: "(string \<Rightarrow> nat) \<Rightarrow> transaction \<Rightarrow> transaction list \<Rightarrow> transaction list" where
  "pool_remove accountNonce tx p =
     filter (\<lambda>t. \<not> (tx_id t = tx_id tx \<or>
                      (senderPublicKey t = senderPublicKey tx \<and>
                       tx_nonce t < accountNonce (senderPublicKey tx)))) p"

definition applyNodeInfo :: "block \<Rightarrow> node \<Rightarrow> node" where
  "applyNodeInfo b st =
     st\<lparr>nodeInfo := Some (height b, block_id b, maxHeightPrevoted b, version b)\<rparr>"

text \<open>The pool's \<open>remove\<close> is the parameter \<open>remove\<close> of the handler.\<close>

definition onNewBlock ::
  "(transaction \<Rightarrow> transaction list \<Rightarrow> transaction list) \<Rightarrow> block_event \<Rightarrow> node \<Rightarrow> node" where
  "onNewBlock remove eventData st =
     (let b = ev_block eventData;
          st1 = st\<lparr>published := published st @ [(''app:block:new'', b, ev_accounts eventData)]\<rparr>;
          st2 = (if length (payload b) \<noteq> 0
                 then fold (\<lambda>tx s. s\<lparr>pool := remove tx (pool s)\<rparr>) (payload b) st1
                 else st1);
          st3 = (if \<not> synchronizer_isActive st2 then applyNodeInfo b st2 else st2)
      in logger (Log Info ''New block added to the chain'') st3)"

subsection \<open>The handler of \<open>EVENT_DELETE_BLOCK\<close>\<close>

text \<open>
  \<open>TransactionPool.add\<close> is not among the sources: it is the parameter \<open>add\<close>, which
  takes the transaction and the pool and either resolves or rejects with an error, leaving
  a pool in both cases. One round of the loop awaits it inside \<open>try\<close>/\<open>catch\<close>.
\<close>

definition readmit ::
  "(transaction \<Rightarrow> transaction list \<Rightarrow> (error + unit) \<times> transaction list) \<Rightarrow>
   transaction \<Rightarrow> node \<Rightarrow> (error + unit) \<times> node" where
  "readmit add tx =
     try_catch
       (\<lambda>st. case add tx (pool st) of (r, p) \<Rightarrow> (r, st\<lparr>pool := p\<rparr>))
       (\<lambda>err st. (Inr (), logger (LogErr ErrorLevel err ''Failed to add transaction back to the pool'') st))"

text \<open>The \<open>for\<close> loop over the payload: a throw that escaped a round would end it.\<close>

fun readmit_all ::
  "(transaction \<Rightarrow> transaction list \<Rightarrow> (error + unit) \<times> transaction list) \<Rightarrow>
   transaction list \<Rightarrow> node \<Rightarrow> (error + unit) \<times> node" where
  "readmit_all add [] st = (Inr (), st)"
| "readmit_all add (tx # txs) st =
     (case readmit add tx st of
        (Inl err, st') \<Rightarrow> (Inl err, st')
      | (Inr u, st') \<Rightarrow> readmit_all add txs st')"

definition onDeleteBlock ::
  "(transaction \<Rightarrow> transaction list \<Rightarrow> (error + unit) \<times> transaction list) \<Rightarrow>
   block_event \<Rightarrow> node \<Rightarrow> (error + unit) \<times> node" where
  "onDeleteBlock add eventData st =
     (let b = ev_block eventData;
          st1 = st\<lparr>published := published st @ [(''app:block:delete'', b, ev_accounts eventData)]\<rparr>
      in case (if length (payload b) \<noteq> 0 then readmit_all add (payload b) st1 else (Inr (), st1)) of
           (Inl err, st2) \<Rightarrow> (Inl err, st2)
         | (Inr u, st2) \<Rightarrow> (Inr (), logger (Log Info ''Deleted a block from the chain'') st2))"

text \<open>
  Modelled from the spec: the pool's admission is not among the sources. Of the
  specification's \<open>Admit\<close> steps the model keeps the quick dedup by id (an already
  present transaction is rejected) and folds the later checks into the callback
  \<open>admissible\<close>; an admitted transaction joins the pool.
\<close>

definition pool_add ::
  "(transaction \<Rightarrow> transaction list \<Rightarrow> bool) \<Rightarrow> transaction \<Rightarrow> transaction list \<Rightarrow>
   (error + unit) \<times> transaction list" where
  "pool_add admissible tx p =
     (if tx_id tx \<in> tx_id ` set p then (Inl (External ''already present''), p)
      else if \<not> admissible tx p then (Inl (External ''rejected''), p)
      else (Inr (), p @ [tx]))"

section \<open>Transport (its unit tests, transport.js, and the specification)\<close>

subsection \<open>The subscriber of \<open>app:network:event\<close> (node.ts)\<close>

text \<open>
  The two transport handlers it dispatches to are parameters here; a throw of either is
  caught and logged as a warning.
\<close>

definition onNetworkEvent ::
  "('d \<Rightarrow> string \<Rightarrow> node \<Rightarrow> (error + unit) \<times> node) \<Rightarrow>
   ('d \<Rightarrow> string \<Rightarrow> node \<Rightarrow> (error + unit) \<times> node) \<Rightarrow>
   string \<Rightarrow> 'd \<Rightarrow> string \<Rightarrow> node \<Rightarrow> (error + unit) \<times> node" where
  "onNetworkEvent handleEventPostTransactionsAnnouncement handleEventPostBlock event data peerId =
     try_catch
       (\<lambda>st. if event = ''postTransactionsAnnouncement''
              then handleEventPostTransactionsAnnouncement data peerId st
              else if event = ''postBlock''
              then handleEventPostBlock data peerId st
              else (Inr (), st))
       (\<lambda>err st. (Inr (), logger (LogErr Warn err ''Received invalid event message'') st))"

subsection \<open>The actions that serve the peers' requests (node.ts)\<close>

text \<open>
  \<open>getTransactions\<close>, \<open>getBlocksFromId\<close> and \<open>getHighestCommonBlock\<close> pass the request's
  \<open>data\<close> and \<open>peerId\<close> to the transport handler, a parameter here, and return what it
  returns: a throw of the handler is the rejection the caller of the action receives.
\<close>

record 'd rpc_params =
  rpc_data :: 'd
  rpc_peerId :: string

definition actions_getTransactions ::
  "('d \<Rightarrow> string \<Rightarrow> node \<Rightarrow> (error + 'a) \<times> node) \<Rightarrow> 'd rpc_params \<Rightarrow> node \<Rightarrow> (error + 'a) \<times> node" where
  "actions_getTransactions handleRPCGetTransactions params =
     handleRPCGetTransactions (rpc_data params) (rpc_peerId params)"

definition actions_getBlocksFromId ::
  "('d \<Rightarrow> string \<Rightarrow> node \<Rightarrow> (error + 'a) \<times> node) \<Rightarrow> 'd rpc_params \<Rightarrow> node \<Rightarrow> (error + 'a) \<times> node" where
  "actions_getBlocksFromId handleRPCGetBlocksFromId params =
     handleRPCGetBlocksFromId (rpc_data params) (rpc_peerId params)"

definition actions_getHighestCommonBlock ::
  "('d \<Rightarrow> string \<Rightarrow> node \<Rightarrow> (error + 'a) \<times> node) \<Rightarrow> 'd rpc_params \<Rightarrow> node \<Rightarrow> (error + 'a) \<times> node" where
  "actions_getHighestCommonBlock handleRPCGetGetHighestCommonBlock params =
     handleRPCGetGetHighestCommonBlock (rpc_data params) (rpc_peerId params)"

subsection \<open>Validation of a peer's payload\<close>

definition applyPenaltyOnPeer :: "string \<Rightarrow> nat \<Rightarrow> node \<Rightarrow> node" where
  "applyPenaltyOnPeer peerId penalty st = st\<lparr>penalties := penalties st @ [(peerId, penalty)]\<rparr>"

text \<open>
  Modelled from the spec: the transport handlers are not among the sources, only unit
  tests of some are. The specification has every malformed payload answered alike
  ("Malformed payload: peer penalty 100"; "\<open>SchemaError\<close>: malformed payload. Peer
  penalty; never fatal"), and the tests show the step for \<open>getBlocksFromId\<close> and
  \<open>postBlock\<close>: the validator is run on the payload with the handler's schema; if it
  reports errors, the peer is penalized by 100 and the errors are thrown; otherwise the
  handler goes on. The validator with the schema is the parameter \<open>validate\<close>, which
  returns the list of validation errors.
\<close>

definition validateOrPenalize ::
  "('d \<Rightarrow> string list) \<Rightarrow> ('d \<Rightarrow> string \<Rightarrow> node \<Rightarrow> (error + 'a) \<times> node) \<Rightarrow>
   'd \<Rightarrow> string \<Rightarrow> node \<Rightarrow> (error + 'a) \<times> node" where
  "validateOrPenalize validate handle data peerId st =
     (if validate data \<noteq> []
      then (Inl (SchemaErrors (validate data)), applyPenaltyOnPeer peerId 100 st)
      else handle data peerId st)"

text \<open>
  Modelled from the spec: \<open>Transport.handleEventPostTransactionsAnnouncement\<close>,
  \<open>Transport.handleRPCGetTransactions\<close> and \<open>Transport.handleRPCGetGetHighestCommonBlock\<close>
  are not among the sources. Each validates the peer's payload as above; what it does
  with an accepted payload is a parameter.
\<close>

definition handleEventPostTransactionsAnnouncement ::
  "('d \<Rightarrow> string list) \<Rightarrow> ('d \<Rightarrow> string \<Rightarrow> node \<Rightarrow> (error + unit) \<times> node) \<Rightarrow>
   'd \<Rightarrow> string \<Rightarrow> node \<Rightarrow> (error + unit) \<times> node" where
  "handleEventPostTransactionsAnnouncement validate fetch = validateOrPenalize validate fetch"

definition handleRPCGetTransactions ::
  "('d \<Rightarrow> string list) \<Rightarrow> ('d \<Rightarrow> string \<Rightarrow> node \<Rightarrow> (error + 'a) \<times> node) \<Rightarrow>
   'd \<Rightarrow> string \<Rightarrow> node \<Rightarrow> (error + 'a) \<times> node" where
  "handleRPCGetTransactions validate serve = validateOrPenalize validate serve"

definition handleRPCGetGetHighestCommonBlock ::
  "('d \<Rightarrow> string list) \<Rightarrow> ('d \<Rightarrow> string \<Rightarrow> node \<Rightarrow> (error + 'a) \<times> node) \<Rightarrow>
   'd \<Rightarrow> string \<Rightarrow> node \<Rightarrow> (error + 'a) \<times> node" where
  "handleRPCGetGetHighestCommonBlock validate serve = validateOrPenalize validate serve"

subsection \<open>\<open>getBlocksFromId\<close>\<close>

text \<open>
  Modelled from the spec: the chain's data access is not among the sources. The stored
  blocks are looked up by id, and by height between two bounds, both inclusive
  ("by height between \<open>parentHeight+1\<close> and \<open>parentHeight+34\<close>").
\<close>

definition getBlockHeaderByID :: "block list \<Rightarrow> string \<Rightarrow> error + block" where
  "getBlockHeaderByID blocks bid =
     (case find (\<lambda>b. block_id b = bid) blocks of None \<Rightarrow> Inl NotFound | Some b \<Rightarrow> Inr b)"

definition getBlocksByHeightBetween :: "block list \<Rightarrow> nat \<Rightarrow> nat \<Rightarrow> block list" where
  "getBlocksByHeightBetween blocks fromHeight toHeight =
     filter (\<lambda>b. fromHeight \<le> height b \<and> height b \<le> toHeight) blocks"

text \<open>
  Modelled from the spec: \<open>Transport.handleRPCGetBlocksFromId\<close> is not among the sources,
  only its unit tests are. From the specification ("given \<open>blockId\<close>, return up to 34
  subsequent blocks by height between \<open>parentHeight+1\<close> and \<open>parentHeight+34\<close>") and
  the tests: the query is validated as every peer payload is (the test's query without
  \<open>blockId\<close> is rejected); for an accepted query the header of the block with that id is
  read and the blocks of the 34 heights above it are returned. The query is represented
  by its \<open>blockId\<close> property, if it has one. The handler's base64 encoding of each
  returned block is left out.
\<close>

definition fetchRange :: "nat \<Rightarrow> nat \<times> nat" where
  "fetchRange lastBlockHeight = (lastBlockHeight + 1, lastBlockHeight + 34)"

definition handleRPCGetBlocksFromId ::
  "(string option \<Rightarrow> string list) \<Rightarrow> string option \<Rightarrow> string \<Rightarrow> node \<Rightarrow> (error + block list) \<times> node" where
  "handleRPCGetBlocksFromId validate =
     validateOrPenalize validate
       (\<lambda>blockId peerId st.
          case blockId of
            None \<Rightarrow> (Inl NotFound, st)
          | Some bid \<Rightarrow>
              (case getBlockHeaderByID (chain_blocks st) bid of
                 Inl err \<Rightarrow> (Inl err, st)
               | Inr lastBlock \<Rightarrow>
                   (case fetchRange (height lastBlock) of
                      (fromHeight, toHeight) \<Rightarrow>
                        (Inr (getBlocksByHeightBetween (chain_blocks st) fromHeight toHeight), st))))"

subsection \<open>\<open>postBlock\<close>\<close>

text \<open>
  Modelled from the spec: \<open>Transport.handleEventPostBlock\<close> is not among the sources, only
  its unit tests are. From the tests: with \<open>broadcasts.active\<close> off the handler logs
  and returns before the validator is called; otherwise the payload is validated as
  every peer payload is (the test's block with the id \<open>dummy\<close> is rejected), and an
  accepted payload is deserialized and processed with the peer id, which is the parameter
  \<open>process\<close>. From the specification: while the synchronizer is active an inbound
  block is dropped; the specification also has every malformed payload penalized, so the
  model validates first and drops the accepted block.
\<close>

definition handleEventPostBlock ::
  "('d \<Rightarrow> string list) \<Rightarrow> ('d \<Rightarrow> string \<Rightarrow> node \<Rightarrow> (error + unit) \<times> node) \<Rightarrow>
   'd \<Rightarrow> string \<Rightarrow> node \<Rightarrow> (error + unit) \<times> node" where
  "handleEventPostBlock validate process data peerId st =
     (if \<not> broadcasts_active st
      then (Inr (), logger (Log Debug ''Receiving blocks disabled by user through config.json'') st)
      else validateOrPenalize validate
             (\<lambda>data peerId st.
                if synchronizer_isActive st
                then (Inr (), logger (Log Debug ''Client is syncing'') st)
                else process data peerId st)
             data peerId st)"

subsection \<open>\<open>postTransaction\<close>\<close>

datatype handlePostTransactionReturn = TransactionId string | Errors error

text \<open>
  Modelled from the spec: \<open>Transport._receiveTransaction\<close> is not among the sources, only
  its unit tests are. From the tests: the transaction is validated
  (\<open>validateTransactions\<close> on the one-element list; a response with errors rejects with
  them), then handed to the pool (\<open>processUnconfirmedTransaction\<close> with \<open>true\<close>); a
  failure there is logged at debug level and rejected with, a success is logged and
  resolves with the transaction id. Validation and the pool are parameters.
\<close>

definition receiveTransaction ::
  "(transaction list \<Rightarrow> string list) \<Rightarrow>
   (transaction \<Rightarrow> bool \<Rightarrow> node \<Rightarrow> (error + unit) \<times> node) \<Rightarrow>
   transaction \<Rightarrow> node \<Rightarrow> (error + string) \<times> node" where
  "receiveTransaction validateTransactions processUnconfirmedTransaction tx st =
     (if validateTransactions [tx] \<noteq> [] then (Inl (SchemaErrors (validateTransactions [tx])), st)
      else
        (case processUnconfirmedTransaction tx True st of
           (Inl err, st') \<Rightarrow>
             (Inl err, logger (Log Debug ''Transaction'')
                         (logger (LogErr Debug err (''Transaction '' @ tx_id tx)) st'))
         | (Inr u, st') \<Rightarrow> (Inr (tx_id tx), logger (Log Debug ''Received transaction'') st')))"

text \<open>
  Modelled from the spec: \<open>Transport.handleEventPostTransaction\<close> is not among the
  sources, only its unit tests are. From the tests: it awaits \<open>_receiveTransaction\<close> on
  the query's transaction; on success it resolves with an object holding the
  \<open>transactionId\<close>, on a rejection it resolves with an object whose \<open>errors\<close> is the
  error. From the specification: transport handlers never fail the process.
  \<open>_receiveTransaction\<close> is the parameter \<open>receive\<close> (the tests stub it).
\<close>

definition handleEventPostTransaction ::
  "(transaction \<Rightarrow> node \<Rightarrow> (error + string) \<times> node) \<Rightarrow> transaction \<Rightarrow> node \<Rightarrow>
   (error + handlePostTransactionReturn) \<times> node" where
  "handleEventPostTransaction receive tx =
     try_catch
       (\<lambda>st. case receive tx st of
                (Inl err, st') \<Rightarrow> (Inl err, st')
              | (Inr i, st') \<Rightarrow> (Inr (TransactionId i), st'))
       (\<lambda>err st. (Inr (Errors err), st))"

section \<open>The action \<open>getValidators\<close> (node.ts)\<close>

text \<open>
  JavaScript's \<open>%\<close> on integers takes the sign of the dividend and is \<open>NaN\<close> (here
  \<open>None\<close>) for a zero divisor; an array read outside the array, or at \<open>NaN\<close>, is
  \<open>undefined\<close> (here \<open>None\<close>).
\<close>

definition js_rem :: "int \<Rightarrow> int \<Rightarrow> int option" where
  "js_rem a b = (if b = 0 then None else Some (a smod b))"

definition js_index :: "'a list \<Rightarrow> int option \<Rightarrow> 'a option" where
  "js_index xs i =
     (case i of
        None \<Rightarrow> None
      | Some j \<Rightarrow> if 0 \<le> j \<and> j < int (length xs) then Some (xs ! nat j) else None)"

record forger_info =
  fi_address :: string
  nextForgingTime :: int

text \<open>
  What the action reads from the chain: the validators of the round (their addresses),
  \<open>numberOfValidators\<close> (a count), and the slot clock, whose functions belong to the chain
  package and are parameters. Addresses are kept as they are (the action encodes them in
  base64). Times and slots are JavaScript numbers holding integers, modelled as integers:
  the model is exact as long as the numbers stay within \<open>2 ^ 53\<close> in absolute value,
  beyond which a JavaScript sum is rounded.
\<close>

record chain_view =
  validators :: "string list"
  numberOfValidators :: nat
  getSlotNumber :: "int \<Rightarrow> int"
  getSlotTime :: "int \<Rightarrow> int"
  slots_blockTime :: int

text \<open>
  The \<open>for\<close> loop, from \<open>i\<close> up to \<open>bound\<close>. Reading an address that is not there
  gives \<open>undefined\<close>, and calling \<open>toString\<close> on it throws a \<open>TypeError\<close>.
\<close>

function getValidators_loop ::
  "string list \<Rightarrow> int \<Rightarrow> int \<Rightarrow> int \<Rightarrow> int \<Rightarrow> forger_info list \<Rightarrow> error + forger_info list" where
  "getValidators_loop validatorAddresses bt i bound nft forgersInfo =
     (if i < bound then
        (case js_index validatorAddresses (js_rem i (int (length validatorAddresses))) of
           None \<Rightarrow> Inl (TypeError ''Cannot read property toString of undefined'')
         | Some a \<Rightarrow>
             getValidators_loop validatorAddresses bt (i + 1) bound (nft + bt)
               (forgersInfo @ [\<lparr>fi_address = a, nextForgingTime = nft\<rparr>]))
      else Inr forgersInfo)"
  by pat_completeness auto
termination
  by (relation "measure (\<lambda>(validatorAddresses, bt, i, bound, nft, forgersInfo). nat (bound - i))") auto

definition getValidators :: "chain_view \<Rightarrow> int \<Rightarrow> error + forger_info list" where
  "getValidators c now =
     (let validatorAddresses = validators c;
          slot = getSlotNumber c now;
          startTime = getSlotTime c slot
      in case js_rem slot (int (numberOfValidators c)) of
           None \<Rightarrow> Inr []
         | Some slotInRound \<Rightarrow>
             getValidators_loop validatorAddresses (slots_blockTime c) slotInRound
               (slotInRound + int (numberOfValidators c)) startTime [])"

section \<open>\<open>registerMultisignature\<close> (register_multisignature_account.ts)\<close>













section \<open>Notions used in the statements\<close>

text \<open>
  The errors with which the re-admissions of a payload fail, in order, when \<open>add\<close> is
  run on each transaction in turn.
\<close>

fun readmit_failures ::
  "(transaction \<Rightarrow> transaction list \<Rightarrow> (error + unit) \<times> transaction list) \<Rightarrow>
   transaction list \<Rightarrow> transaction list \<Rightarrow> error list" where
  "readmit_failures add [] p = []"
| "readmit_failures add (tx # txs) p =
     (case add tx p of
        (Inl err, p') \<Rightarrow> err # readmit_failures add txs p'
      | (Inr u, p') \<Rightarrow> readmit_failures add txs p')"



text \<open>
  The table entry a module's account schema makes, and the entry a list of modules leaves
  under a name: that of the last module of that name that declares an account schema.
\<close>

definition schemaEntry :: "base_module \<Rightarrow> account_schema option" where
  "schemaEntry m = map_option (\<lambda>s. s\<lparr>fieldNumber := Some (moduleID m)\<rparr>) (accountSchema m)"

definition lastSchemaOf :: "base_module list \<Rightarrow> string \<Rightarrow> account_schema option" where
  "lastSchemaOf ms nm =
     (if nm = ''__proto__'' then None
      else case find (\<lambda>m. moduleName m = nm \<and> accountSchema m \<noteq> None) (rev ms) of
             None \<Rightarrow> None
           | Some m \<Rightarrow> schemaEntry m)"

section \<open>Example values\<close>

text \<open>Concrete collaborators and states on which the theorems below are exercised.\<close>

definition example_readGenesisBlockJSON :: "string \<Rightarrow> (string \<rightharpoonup> account_schema) \<Rightarrow> error + string" where
  "example_readGenesisBlockJSON json schemas = Inr json"

definition example_launch :: "string \<Rightarrow> boot_node \<Rightarrow> (error + unit) \<times> boot_node" where
  "example_launch genesisBlock n = (Inr (), n\<lparr>boot_logs := boot_logs n @ [Log Info ''Node ready and launched'']\<rparr>)"

definition example_forge :: "node \<Rightarrow> (error + unit) \<times> node" where
  "example_forge st =
     (Inr (), st\<lparr>chain_blocks := chain_blocks st @
        [\<lparr>block_id = ''forged'', height = length (chain_blocks st), version = 2,
          maxHeightPrevoted = 0, payload = pool st\<rparr>], pool := []\<rparr>)"

definition example_node :: node where
  "example_node = \<lparr> synchronizer_isActive = True, pool = [], chain_blocks = [], logs = [],
     published = [], nodeInfo = None, penalties = [], broadcasts_active = True \<rparr>"

definition token_module :: base_module where
  "token_module = \<lparr> moduleID = 1000, moduleName = ''token'',
     accountSchema = Some \<lparr> properties = ''balance'', fieldNumber = None \<rparr> \<rparr>"

definition token_module_2 :: base_module where
  "token_module_2 = \<lparr> moduleID = 1001, moduleName = ''token'',
     accountSchema = Some \<lparr> properties = ''votes'', fieldNumber = None \<rparr> \<rparr>"

definition proto_module :: base_module where
  "proto_module = \<lparr> moduleID = 1002, moduleName = ''__proto__'',
     accountSchema = Some \<lparr> properties = ''keys'', fieldNumber = None \<rparr> \<rparr>"

definition dpos_module :: base_module where
  "dpos_module = \<lparr> moduleID = 1001, moduleName = ''dpos'',
     accountSchema = Some \<lparr> properties = ''votes'', fieldNumber = None \<rparr> \<rparr>"

definition tx_A :: transaction where
  "tx_A = \<lparr> tx_id = ''A'', senderPublicKey = ''alice'', tx_nonce = 1 \<rparr>"

definition tx_B :: transaction where
  "tx_B = \<lparr> tx_id = ''B'', senderPublicKey = ''bob'', tx_nonce = 0 \<rparr>"

definition tx_C :: transaction where
  "tx_C = \<lparr> tx_id = ''C'', senderPublicKey = ''alice'', tx_nonce = 1 \<rparr>"

definition tx_D :: transaction where
  "tx_D = \<lparr> tx_id = ''D'', senderPublicKey = ''alice'', tx_nonce = 2 \<rparr>"

definition alice_account :: account where
  "alice_account = \<lparr> address = ''alice'', account_nonce = 2 \<rparr>"

definition example_block :: "transaction list \<Rightarrow> block" where
  "example_block txs = \<lparr> block_id = ''b1'', height = 1, version = 2, maxHeightPrevoted = 0, payload = txs \<rparr>"

definition idle_node :: "transaction list \<Rightarrow> node" where
  "idle_node p = \<lparr> synchronizer_isActive = False, pool = p, chain_blocks = [], logs = [],
     published = [], nodeInfo = None, penalties = [], broadcasts_active = True \<rparr>"

definition example_validate :: "block \<Rightarrow> string list" where
  "example_validate b = (if block_id b = ''dummy'' then [''should match format id''] else [])"

definition example_validate_query :: "string option \<Rightarrow> string list" where
  "example_validate_query blockId =
     (case blockId of
        None \<Rightarrow> [''should have required property blockId'']
      | Some bid \<Rightarrow> if bid = ''dummy'' then [''should match format id''] else [])"

definition example_validateTransactions :: "transaction list \<Rightarrow> string list" where
  "example_validateTransactions txs = (if txs = [tx_B] then [''Invalid transaction body''] else [])"

definition example_processUnconfirmedTransaction ::
  "transaction \<Rightarrow> bool \<Rightarrow> node \<Rightarrow> (error + unit) \<times> node" where
  "example_processUnconfirmedTransaction tx bundled st = (Inr (), st\<lparr>pool := pool st @ [tx]\<rparr>)"

definition example_process :: "block \<Rightarrow> string \<Rightarrow> node \<Rightarrow> (error + unit) \<times> node" where
  "example_process b peerId st = (Inr (), st\<lparr>chain_blocks := chain_blocks st @ [b]\<rparr>)"

definition example_chain :: "block list" where
  "example_chain =
     map (\<lambda>(i, h). \<lparr> block_id = i, height = h, version = 2, maxHeightPrevoted = 0, payload = [] \<rparr>)
       [(''b0'', 0), (''b1'', 1), (''b2'', 2), (''b3'', 3), (''b36'', 36), (''b37'', 37)]"

definition example_chain_view :: chain_view where
  "example_chain_view =
     \<lparr> validators = [''v0'', ''v1'', ''v2''], numberOfValidators = 3,
       getSlotNumber = (\<lambda>t. t div 10), getSlotTime = (\<lambda>s. s * 10), slots_blockTime = 10 \<rparr>"







section \<open>Verification\<close>

subsection \<open>The registration loop of \<open>bootstrap\<close>\<close>

lemma registerCustomModules_options:
  "waitThreshold (snd (registerCustomModules ms n)) = waitThreshold n \<and>
   blockTime (snd (registerCustomModules ms n)) = blockTime n"
  by (induction ms arbitrary: n) (auto split: option.splits)

lemma find_moduleID_None:
  "(find (\<lambda>rm. moduleID rm = i) rs = None) = (i \<notin> moduleID ` set rs)"
  by (auto simp: find_None_iff)

lemma registerCustomModules_duplicate:
  "distinct (map moduleID (registeredModules n)) \<Longrightarrow>
   \<not> distinct (map moduleID (registeredModules n @ ms)) \<Longrightarrow> isl (fst (registerCustomModules ms n))"
proof (induction ms arbitrary: n)
  case Nil
  then show ?case by simp
next
  case (Cons m ms)
  show ?case
  proof (cases "find (\<lambda>rm. moduleID rm = moduleID m) (registeredModules n)")
    case None
    then have "moduleID m \<notin> moduleID ` set (registeredModules n)"
      by (simp add: find_moduleID_None)
    with Cons.prems have "distinct (map moduleID (registeredModules n @ [m]))"
      and "\<not> distinct (map moduleID ((registeredModules n @ [m]) @ ms))"
      by auto
    then show ?thesis using None Cons.IH by simp
  next
    case (Some a)
    then show ?thesis by simp
  qed
qed

lemma registerCustomModules_distinct:
  "distinct (map moduleID (registeredModules n @ ms)) \<Longrightarrow>
   registerCustomModules ms n =
     (Inr (), n\<lparr>registeredAccountSchemas := fold registerSchema ms (registeredAccountSchemas n),
               registeredModules := registeredModules n @ ms\<rparr>)"
proof (induction ms arbitrary: n)
  case Nil
  then show ?case by simp
next
  case (Cons m ms)
  from Cons.prems have nf: "find (\<lambda>rm. moduleID rm = moduleID m) (registeredModules n) = None"
    by (auto simp: find_moduleID_None)
  from Cons.prems have "distinct (map moduleID ((registeredModules n @ [m]) @ ms))"
    by simp
  then show ?case using nf Cons.IH by simp
qed

lemma fold_registerSchema_last:
  "fold registerSchema ms tbl nm =
     (if nm = ''__proto__'' then tbl nm
      else case find (\<lambda>m. moduleName m = nm \<and> accountSchema m \<noteq> None) (rev ms) of
             None \<Rightarrow> tbl nm
           | Some m \<Rightarrow> schemaEntry m)"
proof (induction ms rule: rev_induct)
  case Nil
  then show ?case by simp
next
  case (snoc x xs)
  have "fold registerSchema (xs @ [x]) tbl nm = registerSchema x (fold registerSchema xs tbl) nm"
    by simp
  also have "\<dots> = (if nm \<noteq> ''__proto__'' \<and> moduleName x = nm \<and> accountSchema x \<noteq> None
                    then schemaEntry x else fold registerSchema xs tbl nm)"
    by (auto simp: registerSchema_def schemaEntry_def split: option.splits)
  finally have step: "fold registerSchema (xs @ [x]) tbl nm =
      (if nm \<noteq> ''__proto__'' \<and> moduleName x = nm \<and> accountSchema x \<noteq> None
       then schemaEntry x else fold registerSchema xs tbl nm)" .
  show ?case
    unfolding step snoc.IH by auto
qed

lemma find_distinct_name:
  assumes "distinct (map moduleName ms)" and "m \<in> set ms" and "P m"
  shows "find (\<lambda>x. moduleName x = moduleName m \<and> P x) (rev ms) = Some m"
proof -
  have "\<And>x. x \<in> set ms \<Longrightarrow> moduleName x = moduleName m \<Longrightarrow> x = m"
    using assms(1,2) by (meson distinct_map inj_onD)
  then show ?thesis
    using assms(2,3) by (induction ms rule: rev_induct) auto
qed

subsection \<open>C1: no forging while the synchronizer is active\<close>

text \<open>
  Claim C1. On a forging tick taken while \<open>synchronizer.isActive\<close> holds, the tick does
  nothing but log one line: which line depends on \<open>delegatesEnabled\<close> alone (a trace
  line when no delegate is enabled, a debug line when one is, an error line when the
  call throws), the task resolves, the stored blocks and the pool are what they were,
  and the outcome is the same whatever \<open>forge\<close> would do: it is not invoked, also when
  the current time lies in the slot of an unlocked local delegate.
\<close>

theorem C1_forge_refused_while_syncing:
  assumes "synchronizer_isActive st"
  shows "forgingTask delegatesEnabled forge st =
           (Inr (), logger (case delegatesEnabled st of
                              Inl err \<Rightarrow> LogErr ErrorLevel err []
                            | Inr enabled \<Rightarrow> if enabled then Log Debug ''Client not ready to forge''
                                            else Log Trace ''No delegates are enabled'') st)
         \<and> chain_blocks (snd (forgingTask delegatesEnabled forge st)) = chain_blocks st
         \<and> pool (snd (forgingTask delegatesEnabled forge st)) = pool st
         \<and> forgingTask delegatesEnabled forge' st = forgingTask delegatesEnabled forge st"
  using assms
  by (simp add: forgingTask_def try_catch_def logger_def split: sum.splits)

theorem C1_forge_refused_while_syncing_witness:
  "synchronizer_isActive example_node \<and>
   forgingTask (\<lambda>st. Inr True) example_forge example_node =
     (Inr (), example_node\<lparr>logs := [Log Debug ''Client not ready to forge'']\<rparr>)"
  using C1_forge_refused_while_syncing [of example_node "\<lambda>st. Inr True" example_forge example_forge]
  by (simp add: example_node_def logger_def)

text \<open>With the synchronizer idle the same tick does reach \<open>forge\<close>.\<close>

lemma forge_runs_when_not_syncing:
  "forgingTask (\<lambda>st. Inr True) example_forge (example_node\<lparr>synchronizer_isActive := False\<rparr>) =
     example_forge (example_node\<lparr>synchronizer_isActive := False\<rparr>)"
  by (simp add: forgingTask_def try_catch_def example_forge_def example_node_def)

subsection \<open>C2: \<open>waitThreshold < blockTime\<close> is enforced at boot\<close>

text \<open>
  Claim C2. If \<open>forging.waitThreshold\<close> is greater than or equal to
  \<open>genesisConfig.blockTime\<close>, \<open>bootstrap\<close> rejects with an error and the node does not
  start: the outcome does not depend on \<open>launch\<close>, which is never reached. If
  \<open>waitThreshold\<close> is strictly less than \<open>blockTime\<close> the check passes, and once the
  genesis block and the modules are accepted \<open>bootstrap\<close> goes on to \<open>launch\<close>.
\<close>

theorem C2_waitThreshold_enforced:
  "(blockTime n \<le> waitThreshold n \<longrightarrow>
      isl (fst (bootstrap readGenesisBlockJSON launch n)) \<and>
      bootstrap readGenesisBlockJSON launch' n = bootstrap readGenesisBlockJSON launch n) \<and>
   (waitThreshold n < blockTime n \<longrightarrow>
      checkWaitThreshold n = Inr () \<and>
      (genesisBlockJSON n = Some json \<and>
       registerCustomModules (customModules n) n = (Inr (), n1) \<and>
       readGenesisBlockJSON json (registeredAccountSchemas n1) = Inr g \<longrightarrow>
         bootstrap_try readGenesisBlockJSON launch n = launch g n1))"
proof -
  have opts: "waitThreshold (snd (registerCustomModules (customModules n) n)) = waitThreshold n"
    "blockTime (snd (registerCustomModules (customModules n) n)) = blockTime n"
    using registerCustomModules_options by blast+
  have a: "isl (fst (bootstrap readGenesisBlockJSON launch n)) \<and>
      bootstrap readGenesisBlockJSON launch' n = bootstrap readGenesisBlockJSON launch n"
    if "blockTime n \<le> waitThreshold n"
    using that opts
    by (auto simp: bootstrap_def try_catch_def bootstrap_try_def bootstrap_after_registration_def
          checkWaitThreshold_def split: option.splits sum.splits prod.splits)
  have b: "checkWaitThreshold n = Inr ()" if "waitThreshold n < blockTime n"
    using that by (simp add: checkWaitThreshold_def)
  have c: "bootstrap_try readGenesisBlockJSON launch n = launch g n1"
    if "waitThreshold n < blockTime n" "genesisBlockJSON n = Some json"
      "registerCustomModules (customModules n) n = (Inr (), n1)"
      "readGenesisBlockJSON json (registeredAccountSchemas n1) = Inr g"
    using that opts
    by (simp add: bootstrap_try_def bootstrap_after_registration_def checkWaitThreshold_def)
  show ?thesis using a b c by blast
qed

theorem C2_waitThreshold_enforced_witness:
  "(10::int) \<le> 10 \<and> (2::int) < 10 \<and>
   isl (fst (bootstrap example_readGenesisBlockJSON example_launch (new_Node (Some ''{}'') 10 10 []))) \<and>
   checkWaitThreshold (new_Node (Some ''{}'') 2 10 []) = Inr () \<and>
   bootstrap_try example_readGenesisBlockJSON example_launch (new_Node (Some ''{}'') 2 10 []) =
     example_launch ''{}'' (new_Node (Some ''{}'') 2 10 [])"
  using C2_waitThreshold_enforced [of "new_Node (Some ''{}'') 10 10 []" example_readGenesisBlockJSON example_launch]
    C2_waitThreshold_enforced [of "new_Node (Some ''{}'') 2 10 []" example_readGenesisBlockJSON example_launch
       example_launch "''{}''" "new_Node (Some ''{}'') 2 10 []" "''{}''"]
  by (simp add: new_Node_def example_readGenesisBlockJSON_def)

subsection \<open>C3: the pool on \<open>NewBlock\<close>\<close>

lemma fold_remove_pool:
  "fold (\<lambda>tx s. s\<lparr>pool := remove tx (pool s)\<rparr>) txs st = st\<lparr>pool := fold remove txs (pool st)\<rparr>"
  by (induction txs arbitrary: st) simp_all

lemma pool_onNewBlock:
  "pool (onNewBlock remove eventData st) = fold remove (payload (ev_block eventData)) (pool st)"
  by (simp add: onNewBlock_def Let_def fold_remove_pool logger_def applyNodeInfo_def)

lemma fold_pool_remove:
  "fold (pool_remove accountNonce) txs p =
     filter (\<lambda>t. \<forall>tx \<in> set txs.
               \<not> (tx_id t = tx_id tx \<or>
                  (senderPublicKey t = senderPublicKey tx \<and>
                   tx_nonce t < accountNonce (senderPublicKey tx)))) p"
proof (induction txs arbitrary: p)
  case Nil
  then show ?case by simp
next
  case (Cons a txs)
  show ?case
    by (simp add: Cons.IH) (simp add: pool_remove_def conj_commute)
qed

text \<open>
  Claim C3. On a \<open>NewBlock\<close> event the handler hands every transaction of the applied
  block's payload to the pool's \<open>remove\<close>, in order. With the pool of the specification,
  afterwards the pool holds no transaction whose id appears in the applied payload (so no
  transaction included in the applied block), and no transaction of the sender of a
  payload transaction whose nonce is below that sender's on-chain account nonce; what is
  left was in the pool before.
\<close>

theorem C3_pool_on_new_block:
  "pool (onNewBlock remove eventData st) = fold remove (payload (ev_block eventData)) (pool st) \<and>
   (\<forall>t \<in> set (pool (onNewBlock (pool_remove accountNonce) eventData st)).
      tx_id t \<notin> tx_id ` set (payload (ev_block eventData)) \<and>
      (\<forall>tx \<in> set (payload (ev_block eventData)).
         senderPublicKey t = senderPublicKey tx \<longrightarrow>
           accountNonce (senderPublicKey tx) \<le> tx_nonce t)) \<and>
   set (pool (onNewBlock (pool_remove accountNonce) eventData st)) \<subseteq> set (pool st)"
  by (auto simp: pool_onNewBlock fold_pool_remove)

theorem C3_pool_on_new_block_witness:
  "pool (onNewBlock (pool_remove (\<lambda>sender. if sender = ''alice'' then 2 else 0))
           \<lparr>ev_block = example_block [tx_C], ev_accounts = [alice_account]\<rparr>
           (idle_node [tx_B, tx_C, tx_A, tx_D])) = [tx_B, tx_D]"
  using C3_pool_on_new_block [of "pool_remove (\<lambda>sender. if sender = ''alice'' then 2 else 0)"
               "\<lparr>ev_block = example_block [tx_C], ev_accounts = [alice_account]\<rparr>"
               "idle_node [tx_B, tx_C, tx_A, tx_D]" "\<lambda>sender. if sender = ''alice'' then 2 else 0"]
  by (simp add: example_block_def idle_node_def pool_remove_def tx_A_def tx_B_def tx_C_def tx_D_def)

subsection \<open>C4: the pool on \<open>DeleteBlock\<close>\<close>

lemma readmit_eq:
  "readmit add tx st =
     (Inr (), case add tx (pool st) of
                (Inl err, p) \<Rightarrow> logger (LogErr ErrorLevel err ''Failed to add transaction back to the pool'') (st\<lparr>pool := p\<rparr>)
              | (Inr u, p) \<Rightarrow> st\<lparr>pool := p\<rparr>)"
  by (simp add: readmit_def try_catch_def split: prod.splits sum.splits)

lemma readmit_all_eq:
  "readmit_all add txs st =
     (Inr (), st\<lparr>pool := fold (\<lambda>tx p. snd (add tx p)) txs (pool st),
                  logs := logs st @ map (\<lambda>err. LogErr ErrorLevel err ''Failed to add transaction back to the pool'')
                                      (readmit_failures add txs (pool st))\<rparr>)"
proof (induction txs arbitrary: st)
  case Nil
  then show ?case by simp
next
  case (Cons tx txs)
  show ?case
    by (cases "add tx (pool st)") (auto simp: readmit_eq Cons.IH logger_def split: sum.splits)
qed

text \<open>
  Claim C4. On a \<open>DeleteBlock\<close> event the handler resolves, whatever \<open>add\<close> does. Every
  transaction of the reverted block's payload is handed to the pool's \<open>add\<close>, in order,
  each on the pool the previous one left, whether the previous ones failed or not; each
  failure (an already present transaction included) leaves one error line in the log and
  nothing else; the deletion is logged at the end.
\<close>

theorem C4_readmission_on_delete_block:
  "onDeleteBlock add eventData st =
     (Inr (),
      st\<lparr>published := published st @ [(''app:block:delete'', ev_block eventData, ev_accounts eventData)],
         pool := fold (\<lambda>tx p. snd (add tx p)) (payload (ev_block eventData)) (pool st),
         logs := logs st @
           map (\<lambda>err. LogErr ErrorLevel err ''Failed to add transaction back to the pool'')
             (readmit_failures add (payload (ev_block eventData)) (pool st)) @
           [Log Info ''Deleted a block from the chain'']\<rparr>)"
  by (cases "payload (ev_block eventData)")
     (simp_all add: onDeleteBlock_def Let_def readmit_all_eq logger_def del: readmit_all.simps fold_simps)

theorem C4_readmission_on_delete_block_witness:
  "onDeleteBlock (pool_add (\<lambda>tx p. tx_id tx \<noteq> ''B''))
      \<lparr>ev_block = example_block [tx_A, tx_B, tx_C], ev_accounts = []\<rparr> (idle_node [tx_A]) =
     (Inr (),
      (idle_node [tx_A, tx_C])
        \<lparr>published := [(''app:block:delete'', example_block [tx_A, tx_B, tx_C], [])],
         logs := [LogErr ErrorLevel (External ''already present'') ''Failed to add transaction back to the pool'',
                  LogErr ErrorLevel (External ''rejected'') ''Failed to add transaction back to the pool'',
                  Log Info ''Deleted a block from the chain'']\<rparr>)"
  using C4_readmission_on_delete_block [of "pool_add (\<lambda>tx p. tx_id tx \<noteq> ''B'')"
      "\<lparr>ev_block = example_block [tx_A, tx_B, tx_C], ev_accounts = []\<rparr>" "idle_node [tx_A]"]
  by (simp add: pool_add_def example_block_def idle_node_def tx_A_def tx_B_def tx_C_def)

subsection \<open>C5: the window of \<open>getBlocksFromId\<close>\<close>

lemma find_distinct_id:
  "distinct (map block_id blocks) \<Longrightarrow> b \<in> set blocks \<Longrightarrow>
   find (\<lambda>x. block_id x = block_id b) blocks = Some b"
  by (induction blocks) (auto simp: rev_image_eqI)

lemma length_getBlocksByHeightBetween:
  assumes "distinct (map height blocks)"
  shows "length (getBlocksByHeightBetween blocks lo hi) \<le> Suc hi - lo"
proof -
  let ?bs = "getBlocksByHeightBetween blocks lo hi"
  have d: "distinct (map height ?bs)"
    using assms by (simp add: getBlocksByHeightBetween_def distinct_map_filter)
  then have "length ?bs = card (height ` set ?bs)"
    by (metis distinct_card length_map set_map)
  also have "\<dots> \<le> card {lo..hi}"
    by (rule card_mono) (auto simp: getBlocksByHeightBetween_def)
  finally show ?thesis by simp
qed

text \<open>The unit test: for a header of height 2 the blocks are fetched between 3 and 36.\<close>

lemma getBlocksFromId_range_test: "fetchRange 2 = (3, 36)"
  by (simp add: fetchRange_def)

text \<open>
  Claim C5. On a store whose blocks have pairwise distinct ids and pairwise distinct
  heights, \<open>getBlocksFromId\<close> given the id of a stored block of height \<open>h\<close> returns,
  unless the validator rejects the query, at most 34 blocks, exactly the stored blocks
  whose height lies between \<open>h+1\<close> and \<open>h+34\<close>, both inclusive.
\<close>

theorem C5_getBlocksFromId_window:
  assumes "parent \<in> set (chain_blocks st)"
    and "distinct (map block_id (chain_blocks st))"
    and "distinct (map height (chain_blocks st))"
  shows "handleRPCGetBlocksFromId validate (Some (block_id parent)) peerId st =
           (if validate (Some (block_id parent)) \<noteq> []
            then (Inl (SchemaErrors (validate (Some (block_id parent)))), applyPenaltyOnPeer peerId 100 st)
            else (Inr (getBlocksByHeightBetween (chain_blocks st) (height parent + 1) (height parent + 34)), st))
         \<and> length (getBlocksByHeightBetween (chain_blocks st) (height parent + 1) (height parent + 34)) \<le> 34
         \<and> set (getBlocksByHeightBetween (chain_blocks st) (height parent + 1) (height parent + 34)) =
             {b \<in> set (chain_blocks st). height parent + 1 \<le> height b \<and> height b \<le> height parent + 34}"
proof -
  have "find (\<lambda>x. block_id x = block_id parent) (chain_blocks st) = Some parent"
    using assms(1,2) by (simp add: find_distinct_id)
  then have "handleRPCGetBlocksFromId validate (Some (block_id parent)) peerId st =
           (if validate (Some (block_id parent)) \<noteq> []
            then (Inl (SchemaErrors (validate (Some (block_id parent)))), applyPenaltyOnPeer peerId 100 st)
            else (Inr (getBlocksByHeightBetween (chain_blocks st) (height parent + 1) (height parent + 34)), st))"
    by (simp add: handleRPCGetBlocksFromId_def validateOrPenalize_def getBlockHeaderByID_def fetchRange_def)
  moreover have "length (getBlocksByHeightBetween (chain_blocks st) (height parent + 1) (height parent + 34)) \<le> 34"
    using length_getBlocksByHeightBetween [OF assms(3), of "height parent + 1" "height parent + 34"]
    by simp
  moreover have "set (getBlocksByHeightBetween (chain_blocks st) (height parent + 1) (height parent + 34)) =
             {b \<in> set (chain_blocks st). height parent + 1 \<le> height b \<and> height b \<le> height parent + 34}"
    by (auto simp: getBlocksByHeightBetween_def)
  ultimately show ?thesis by blast
qed

theorem C5_getBlocksFromId_window_witness:
  "example_chain ! 2 \<in> set example_chain \<and> distinct (map block_id example_chain) \<and>
   distinct (map height example_chain) \<and>
   handleRPCGetBlocksFromId example_validate_query (Some ''b2'') ''peer-id''
       ((idle_node [])\<lparr>chain_blocks := example_chain\<rparr>) =
     (Inr [example_chain ! 3, example_chain ! 4], (idle_node [])\<lparr>chain_blocks := example_chain\<rparr>)"
proof -
  have a: "example_chain ! 2 \<in> set (chain_blocks ((idle_node [])\<lparr>chain_blocks := example_chain\<rparr>))"
    and b: "distinct (map block_id (chain_blocks ((idle_node [])\<lparr>chain_blocks := example_chain\<rparr>)))"
    and c: "distinct (map height (chain_blocks ((idle_node [])\<lparr>chain_blocks := example_chain\<rparr>)))"
    by (simp_all add: example_chain_def)
  show ?thesis
    using C5_getBlocksFromId_window [OF a b c, of example_validate_query "''peer-id''"] a b c
    by (simp add: example_chain_def getBlocksByHeightBetween_def example_validate_query_def)
qed

subsection \<open>C6: penalty on a malformed payload\<close>

text \<open>
  With \<open>broadcasts.active\<close> off, a \<open>postBlock\<close> whose block id has the wrong format is
  dropped before it is validated: no penalty is applied to the peer. And a
  \<open>postTransaction\<close> comes without a peer id: a transaction that fails validation is
  answered with the errors, and no peer is penalized.
\<close>

theorem C6_no_penalty_counterexample:
  "example_validate ((example_block [])\<lparr>block_id := ''dummy''\<rparr>) \<noteq> [] \<and>
   penalties (snd (handleEventPostBlock example_validate example_process
                     ((example_block [])\<lparr>block_id := ''dummy''\<rparr>) ''peer-id''
                     ((idle_node [])\<lparr>broadcasts_active := False\<rparr>))) = [] \<and>
   example_validateTransactions [tx_B] \<noteq> [] \<and>
   handleEventPostTransaction
       (receiveTransaction example_validateTransactions example_processUnconfirmedTransaction)
       tx_B (idle_node []) =
     (Inr (Errors (SchemaErrors [''Invalid transaction body''])), idle_node []) \<and>
   penalties (idle_node []) = []"
  by (simp add: handleEventPostBlock_def example_validate_def idle_node_def logger_def
      handleEventPostTransaction_def try_catch_def receiveTransaction_def
      example_validateTransactions_def)

text \<open>
  Claim C6 (amended). Every inbound message of a peer whose payload fails schema
  validation, be it one of the requests \<open>getBlocksFromId\<close>, \<open>getHighestCommonBlock\<close> and
  \<open>getTransactions\<close> or one of the events \<open>postTransactionsAnnouncement\<close> and
  \<open>postBlock\<close>, is answered with exactly one penalty, of exactly 100, on the sending
  peer, and the node goes on: for a request the validation errors are the rejection that
  the caller of the action receives, the rest of the node unchanged, and for an event
  the node's subscriber catches the errors and logs a warning. The one exception is a
  \<open>postBlock\<close> received while receiving blocks is disabled (\<open>broadcasts.active\<close> off):
  the handler logs and returns before it validates, whatever the payload. A
  \<open>postTransaction\<close> has no sending peer: the handler applies no penalty and resolves.
\<close>

theorem C6_malformed_payload_penalty:
  "(vB dB \<noteq> [] \<longrightarrow>
      actions_getBlocksFromId (handleRPCGetBlocksFromId vB) \<lparr>rpc_data = dB, rpc_peerId = peerId\<rparr> st =
        (Inl (SchemaErrors (vB dB)), st\<lparr>penalties := penalties st @ [(peerId, 100)]\<rparr>)) \<and>
   (vH dH \<noteq> [] \<longrightarrow>
      actions_getHighestCommonBlock (handleRPCGetGetHighestCommonBlock vH serveH)
          \<lparr>rpc_data = dH, rpc_peerId = peerId\<rparr> st =
        (Inl (SchemaErrors (vH dH)), st\<lparr>penalties := penalties st @ [(peerId, 100)]\<rparr>)) \<and>
   (vT dT \<noteq> [] \<longrightarrow>
      actions_getTransactions (handleRPCGetTransactions vT serveT)
          \<lparr>rpc_data = dT, rpc_peerId = peerId\<rparr> st =
        (Inl (SchemaErrors (vT dT)), st\<lparr>penalties := penalties st @ [(peerId, 100)]\<rparr>)) \<and>
   (vA dA \<noteq> [] \<longrightarrow>
      onNetworkEvent (handleEventPostTransactionsAnnouncement vA fetch) postBlockA
          ''postTransactionsAnnouncement'' dA peerId st =
        (Inr (), st\<lparr>penalties := penalties st @ [(peerId, 100)],
                     logs := logs st @ [LogErr Warn (SchemaErrors (vA dA)) ''Received invalid event message'']\<rparr>)) \<and>
   (vP dP \<noteq> [] \<and> broadcasts_active st \<longrightarrow>
      handleEventPostBlock vP process dP peerId st =
        (Inl (SchemaErrors (vP dP)), st\<lparr>penalties := penalties st @ [(peerId, 100)]\<rparr>) \<and>
      onNetworkEvent announceP (handleEventPostBlock vP process) ''postBlock'' dP peerId st =
        (Inr (), st\<lparr>penalties := penalties st @ [(peerId, 100)],
                     logs := logs st @ [LogErr Warn (SchemaErrors (vP dP)) ''Received invalid event message'']\<rparr>)) \<and>
   (\<not> broadcasts_active st \<longrightarrow>
      onNetworkEvent announceP (handleEventPostBlock vP process) ''postBlock'' dP peerId st =
        (Inr (), st\<lparr>logs := logs st @ [Log Debug ''Receiving blocks disabled by user through config.json'']\<rparr>)) \<and>
   \<not> isl (fst (handleEventPostTransaction receive tx st)) \<and>
   penalties (snd (handleEventPostTransaction receive tx st)) = penalties (snd (receive tx st))"
proof -
  have rpc: "validateOrPenalize v h d peerId st =
      (Inl (SchemaErrors (v d)), st\<lparr>penalties := penalties st @ [(peerId, 100)]\<rparr>)"
    if "v d \<noteq> []" for v :: "'x \<Rightarrow> string list" and h :: "'x \<Rightarrow> string \<Rightarrow> node \<Rightarrow> (error + 'y) \<times> node" and d
    using that by (simp add: validateOrPenalize_def applyPenaltyOnPeer_def)
  have tx: "\<not> isl (fst (handleEventPostTransaction receive tx st)) \<and>
      penalties (snd (handleEventPostTransaction receive tx st)) = penalties (snd (receive tx st))"
    by (auto simp: handleEventPostTransaction_def try_catch_def split: prod.splits sum.splits)
  show ?thesis
    using tx
    by (simp add: actions_getBlocksFromId_def actions_getHighestCommonBlock_def
        actions_getTransactions_def handleRPCGetBlocksFromId_def
        handleRPCGetGetHighestCommonBlock_def handleRPCGetTransactions_def
        handleEventPostTransactionsAnnouncement_def handleEventPostBlock_def rpc
        onNetworkEvent_def try_catch_def logger_def)
qed

theorem C6_malformed_payload_penalty_witness:
  "example_validate_query (Some ''dummy'') \<noteq> [] \<and>
   actions_getBlocksFromId (handleRPCGetBlocksFromId example_validate_query)
       \<lparr>rpc_data = Some ''dummy'', rpc_peerId = ''peer-id''\<rparr> (idle_node []) =
     (Inl (SchemaErrors [''should match format id'']), (idle_node [])\<lparr>penalties := [(''peer-id'', 100)]\<rparr>) \<and>
   example_validate ((example_block [])\<lparr>block_id := ''dummy''\<rparr>) \<noteq> [] \<and>
   broadcasts_active (idle_node []) \<and>
   \<not> broadcasts_active ((idle_node [])\<lparr>broadcasts_active := False\<rparr>) \<and>
   onNetworkEvent example_process (handleEventPostBlock example_validate example_process) ''postBlock''
       ((example_block [])\<lparr>block_id := ''dummy''\<rparr>) ''peer-id'' (idle_node []) =
     (Inr (), (idle_node [])\<lparr>penalties := [(''peer-id'', 100)],
                logs := [LogErr Warn (SchemaErrors [''should match format id'']) ''Received invalid event message'']\<rparr>) \<and>
   onNetworkEvent (handleEventPostTransactionsAnnouncement example_validate example_process)
       example_process ''postTransactionsAnnouncement''
       ((example_block [])\<lparr>block_id := ''dummy''\<rparr>) ''peer-id'' (idle_node []) =
     (Inr (), (idle_node [])\<lparr>penalties := [(''peer-id'', 100)],
                logs := [LogErr Warn (SchemaErrors [''should match format id'']) ''Received invalid event message'']\<rparr>) \<and>
   onNetworkEvent example_process (handleEventPostBlock example_validate example_process) ''postBlock''
       ((example_block [])\<lparr>block_id := ''dummy''\<rparr>) ''peer-id'' ((idle_node [])\<lparr>broadcasts_active := False\<rparr>) =
     (Inr (), (idle_node [])\<lparr>broadcasts_active := False,
                logs := [Log Debug ''Receiving blocks disabled by user through config.json'']\<rparr>)"
  using C6_malformed_payload_penalty [where peerId = "''peer-id''" and st = "idle_node []"
      and vH = example_validate
      and dH = "(example_block [])\<lparr>block_id := ''dummy''\<rparr>" and serveH = example_process
      and vT = example_validate
      and dT = "(example_block [])\<lparr>block_id := ''dummy''\<rparr>" and serveT = example_process
      and vB = example_validate_query and dB = "Some ''dummy''"
      and vP = example_validate
      and dP = "(example_block [])\<lparr>block_id := ''dummy''\<rparr>" and process = example_process
      and announceP = example_process and vA = example_validate
      and dA = "(example_block [])\<lparr>block_id := ''dummy''\<rparr>" and fetch = example_process
      and postBlockA = example_process
      and receive = "receiveTransaction example_validateTransactions example_processUnconfirmedTransaction"
      and tx = tx_B]
    C6_malformed_payload_penalty [where peerId = "''peer-id''"
      and st = "(idle_node [])\<lparr>broadcasts_active := False\<rparr>"
      and vH = example_validate
      and dH = "(example_block [])\<lparr>block_id := ''dummy''\<rparr>" and serveH = example_process
      and vT = example_validate
      and dT = "(example_block [])\<lparr>block_id := ''dummy''\<rparr>" and serveT = example_process
      and vB = example_validate_query and dB = "Some ''dummy''"
      and vP = example_validate
      and dP = "(example_block [])\<lparr>block_id := ''dummy''\<rparr>" and process = example_process
      and announceP = example_process and vA = example_validate
      and dA = "(example_block [])\<lparr>block_id := ''dummy''\<rparr>" and fetch = example_process
      and postBlockA = example_process
      and receive = "receiveTransaction example_validateTransactions example_processUnconfirmedTransaction"
      and tx = tx_B]
  by (simp add: example_validate_def example_validate_query_def idle_node_def)

subsection \<open>C7: \<open>handleEventPostTransaction\<close> never throws\<close>

text \<open>
  Claim C7. Whatever the receive path does, \<open>handleEventPostTransaction\<close> resolves: when
  receiving the transaction fails with an error (a full pool included) it resolves with
  an object carrying that error, and when it succeeds it resolves with the transaction
  id.
\<close>

theorem C7_postTransaction_total:
  "\<not> isl (fst (handleEventPostTransaction receive tx st)) \<and>
   (receive tx st = (Inl err, st') \<longrightarrow>
      handleEventPostTransaction receive tx st = (Inr (Errors err), st')) \<and>
   (receive tx st = (Inr i, st') \<longrightarrow>
      handleEventPostTransaction receive tx st = (Inr (TransactionId i), st'))"
  by (auto simp: handleEventPostTransaction_def try_catch_def split: prod.splits sum.splits)

theorem C7_postTransaction_total_witness:
  "handleEventPostTransaction
      (receiveTransaction (\<lambda>txs. []) (\<lambda>tx b st. (Inl (External ''Transaction pool is full''), st)))
      tx_A (idle_node []) =
     (Inr (Errors (External ''Transaction pool is full'')),
      (idle_node [])\<lparr>logs := [LogErr Debug (External ''Transaction pool is full'') ''Transaction A'',
                               Log Debug ''Transaction'']\<rparr>) \<and>
   handleEventPostTransaction
      (receiveTransaction (\<lambda>txs. []) (\<lambda>tx b st. (Inr (), st\<lparr>pool := pool st @ [tx]\<rparr>)))
      tx_A (idle_node []) =
     (Inr (TransactionId ''A''), (idle_node [tx_A])\<lparr>logs := [Log Debug ''Received transaction'']\<rparr>)"
  using C7_postTransaction_total [where receive = "receiveTransaction (\<lambda>txs. []) (\<lambda>tx b st. (Inl (External ''Transaction pool is full''), st))"
      and tx = tx_A and st = "idle_node []" and err = "External ''Transaction pool is full''"
      and st' = "(idle_node [])\<lparr>logs := [LogErr Debug (External ''Transaction pool is full'') ''Transaction A'',
                               Log Debug ''Transaction'']\<rparr>"]
    C7_postTransaction_total [where receive = "receiveTransaction (\<lambda>txs. []) (\<lambda>tx b st. (Inr (), st\<lparr>pool := pool st @ [tx]\<rparr>))"
      and tx = tx_A and st = "idle_node []" and i = "''A''"
      and st' = "(idle_node [tx_A])\<lparr>logs := [Log Debug ''Received transaction'']\<rparr>"]
  by (simp add: receiveTransaction_def logger_def idle_node_def tx_A_def)

subsection \<open>C8: registration of the custom modules\<close>

lemma new_Node_fields:
  "genesisBlockJSON (new_Node json wt bt ms) = json"
  "customModules (new_Node json wt bt ms) = ms"
  "registeredModules (new_Node json wt bt ms) = []"
  "registeredAccountSchemas (new_Node json wt bt ms) = Map.empty"
  "waitThreshold (new_Node json wt bt ms) = wt"
  "blockTime (new_Node json wt bt ms) = bt"
  by (simp_all add: new_Node_def)

lemma registerCustomModules_fresh:
  assumes "distinct (map moduleID ms)"
  shows "registerCustomModules ms (new_Node json wt bt ms) =
      (Inr (), (new_Node json wt bt ms)\<lparr>registeredAccountSchemas := fold registerSchema ms Map.empty,
                  registeredModules := ms\<rparr>)"
  using assms registerCustomModules_distinct [of "new_Node json wt bt ms" ms]
  by (simp add: new_Node_fields)

lemma bootstrap_duplicate_ids:
  assumes "\<not> distinct (map moduleID ms)"
  shows "isl (fst (bootstrap readGenesisBlockJSON launch (new_Node json wt bt ms))) \<and>
      bootstrap readGenesisBlockJSON launch' (new_Node json wt bt ms) =
        bootstrap readGenesisBlockJSON launch (new_Node json wt bt ms)"
proof -
  define n where "n = new_Node json wt bt ms"
  from assms have "isl (fst (registerCustomModules ms n))"
    using registerCustomModules_duplicate [of n ms] by (simp add: new_Node_fields n_def)
  then obtain e n1 where r: "registerCustomModules (customModules n) n = (Inl e, n1)"
    by (cases "registerCustomModules ms n") (auto simp: isl_def new_Node_fields n_def)
  have "bootstrap_try readGenesisBlockJSON l n =
          (case genesisBlockJSON n of None \<Rightarrow> (Inl MissingGenesisBlock, n) | Some x \<Rightarrow> (Inl e, n1))" for l
    by (simp add: bootstrap_try_def r split: option.splits)
  then have "isl (fst (bootstrap readGenesisBlockJSON launch n)) \<and>
    bootstrap readGenesisBlockJSON launch' n = bootstrap readGenesisBlockJSON launch n"
    by (cases "genesisBlockJSON n") (simp_all add: bootstrap_def try_catch_def)
  then show ?thesis by (simp add: n_def)
qed

text \<open>
  Two modules with different ids and the same name are both registered, and bootstrap
  succeeds, but the schema table is keyed by name: the second module's schema replaces
  the first one's, which is then not in the table under its name with its id.
\<close>

theorem C8_same_name_counterexample:
  "distinct (map moduleID [token_module, token_module_2]) \<and>
   fst (bootstrap example_readGenesisBlockJSON example_launch
          (new_Node (Some ''{}'') 2 10 [token_module, token_module_2])) = Inr () \<and>
   registeredModules (snd (bootstrap example_readGenesisBlockJSON example_launch
          (new_Node (Some ''{}'') 2 10 [token_module, token_module_2]))) = [token_module, token_module_2] \<and>
   accountSchema token_module = Some \<lparr> properties = ''balance'', fieldNumber = None \<rparr> \<and>
   registeredAccountSchemas (snd (bootstrap example_readGenesisBlockJSON example_launch
          (new_Node (Some ''{}'') 2 10 [token_module, token_module_2]))) (moduleName token_module)
     \<noteq> Some \<lparr> properties = ''balance'', fieldNumber = Some (moduleID token_module) \<rparr> \<and>
   fst (bootstrap example_readGenesisBlockJSON example_launch
          (new_Node (Some ''{}'') 2 10 [proto_module])) = Inr () \<and>
   accountSchema proto_module = Some \<lparr> properties = ''keys'', fieldNumber = None \<rparr> \<and>
   registeredAccountSchemas (snd (bootstrap example_readGenesisBlockJSON example_launch
          (new_Node (Some ''{}'') 2 10 [proto_module]))) (moduleName proto_module) = None"
  by (simp add: bootstrap_def try_catch_def bootstrap_try_def bootstrap_after_registration_def
      checkWaitThreshold_def new_Node_def token_module_def token_module_2_def proto_module_def
      registerSchema_def example_readGenesisBlockJSON_def example_launch_def)

text \<open>
  Claim C8 (amended). Bootstrapping a new node whose custom modules contain two with
  the same id rejects with an error, and \<open>launch\<close>, which builds the chain, is not
  reached. Otherwise the registration succeeds and registers exactly the supplied
  modules, once each and in order, and the schema table holds, under every name other
  than \<open>__proto__\<close>, the account schema of the last supplied module of that name that
  declares one, with \<open>fieldNumber\<close> equal to that module's id, and nothing under a name
  that no such module has, nor under \<open>__proto__\<close>. So when the module names are
  pairwise distinct, every module that declares an account schema and is not named
  \<open>__proto__\<close> has it in the table under its name with \<open>fieldNumber\<close> equal to its id.
  Bootstrap goes on from that state.
\<close>

theorem C8_module_registration:
  "(\<not> distinct (map moduleID ms) \<longrightarrow>
      isl (fst (bootstrap readGenesisBlockJSON launch (new_Node json wt bt ms))) \<and>
      bootstrap readGenesisBlockJSON launch' (new_Node json wt bt ms) =
        bootstrap readGenesisBlockJSON launch (new_Node json wt bt ms)) \<and>
   (distinct (map moduleID ms) \<longrightarrow>
      fst (registerCustomModules ms (new_Node json wt bt ms)) = Inr () \<and>
      registeredModules (snd (registerCustomModules ms (new_Node json wt bt ms))) = ms \<and>
      registeredAccountSchemas (snd (registerCustomModules ms (new_Node json wt bt ms))) =
        lastSchemaOf ms \<and>
      (distinct (map moduleName ms) \<longrightarrow>
         (\<forall>m \<in> set ms. \<forall>s. accountSchema m = Some s \<and> moduleName m \<noteq> ''__proto__'' \<longrightarrow>
            registeredAccountSchemas (snd (registerCustomModules ms (new_Node json wt bt ms))) (moduleName m)
              = Some (s\<lparr>fieldNumber := Some (moduleID m)\<rparr>))) \<and>
      (json = Some j \<longrightarrow>
         bootstrap_try readGenesisBlockJSON launch (new_Node json wt bt ms) =
           bootstrap_after_registration readGenesisBlockJSON launch j
             (snd (registerCustomModules ms (new_Node json wt bt ms)))))"
proof (cases "distinct (map moduleID ms)")
  case False
  then show ?thesis using bootstrap_duplicate_ids by blast
next
  case True
  note ok = registerCustomModules_fresh [OF True]
  have tbl: "fold registerSchema ms Map.empty = lastSchemaOf ms"
    by (rule ext) (simp add: fold_registerSchema_last lastSchemaOf_def split: option.splits)
  have names: "lastSchemaOf ms (moduleName m) = Some (s\<lparr>fieldNumber := Some (moduleID m)\<rparr>)"
    if "distinct (map moduleName ms)" "m \<in> set ms" "accountSchema m = Some s"
      "moduleName m \<noteq> ''__proto__''" for m s
  proof -
    have "find (\<lambda>x. moduleName x = moduleName m \<and> accountSchema x \<noteq> None) (rev ms) = Some m"
      using that(1,2,3) by (intro find_distinct_name) simp_all
    then show ?thesis using that(3,4) by (simp add: lastSchemaOf_def schemaEntry_def)
  qed
  have "bootstrap_try readGenesisBlockJSON launch (new_Node (Some j) wt bt ms) =
           bootstrap_after_registration readGenesisBlockJSON launch j
             (snd (registerCustomModules ms (new_Node (Some j) wt bt ms)))"
    by (simp add: bootstrap_try_def new_Node_fields ok)
  then show ?thesis
    using True names by (auto simp: ok tbl)
qed

theorem C8_module_registration_witness:
  "\<not> distinct (map moduleID [token_module, dpos_module, token_module]) \<and>
   isl (fst (bootstrap example_readGenesisBlockJSON example_launch
          (new_Node (Some ''{}'') 2 10 [token_module, dpos_module, token_module]))) \<and>
   distinct (map moduleID [token_module, dpos_module]) \<and>
   distinct (map moduleName [token_module, dpos_module]) \<and>
   registeredModules (snd (registerCustomModules [token_module, dpos_module]
      (new_Node (Some ''{}'') 2 10 [token_module, dpos_module]))) = [token_module, dpos_module] \<and>
   registeredAccountSchemas (snd (registerCustomModules [token_module, dpos_module]
      (new_Node (Some ''{}'') 2 10 [token_module, dpos_module]))) ''dpos''
     = Some \<lparr> properties = ''votes'', fieldNumber = Some 1001 \<rparr> \<and>
   distinct (map moduleID [token_module, token_module_2]) \<and>
   registeredAccountSchemas (snd (registerCustomModules [token_module, token_module_2]
      (new_Node (Some ''{}'') 2 10 [token_module, token_module_2]))) ''token''
     = Some \<lparr> properties = ''votes'', fieldNumber = Some 1001 \<rparr>"
  using C8_module_registration [of "[token_module, dpos_module, token_module]" example_readGenesisBlockJSON example_launch
             "Some ''{}''" 2 10 example_launch "''{}''"]
    C8_module_registration [of "[token_module, dpos_module]" example_readGenesisBlockJSON example_launch
             "Some ''{}''" 2 10 example_launch "''{}''"]
    C8_module_registration [of "[token_module, token_module_2]" example_readGenesisBlockJSON example_launch
             "Some ''{}''" 2 10 example_launch "''{}''"]
  by (simp add: token_module_def token_module_2_def dpos_module_def lastSchemaOf_def schemaEntry_def)

subsection \<open>C9: the schedule returned by \<open>getValidators\<close>\<close>

lemma getValidators_loop_ok:
  "0 \<le> i \<Longrightarrow> 0 < length addrs \<Longrightarrow>
   getValidators_loop addrs bt i bound nft acc =
     Inr (acc @ map (\<lambda>k. \<lparr>fi_address = addrs ! nat ((i + int k) mod int (length addrs)),
                           nextForgingTime = nft + int k * bt\<rparr>) [0..<nat (bound - i)])"
proof (induction addrs bt i bound nft acc rule: getValidators_loop.induct)
  case (1 addrs bt i bound nft acc)
  show ?case
  proof (cases "i < bound")
    case False
    then show ?thesis by simp
  next
    case True
    let ?L = "int (length addrs)"
    have r: "js_rem i ?L = Some (i mod ?L)"
      using "1.prems" by (simp add: js_rem_def smod_mod_positive)
    have ix: "js_index addrs (Some (i mod ?L)) = Some (addrs ! nat (i mod ?L))"
      using "1.prems" by (simp add: js_index_def)
    have IH: "getValidators_loop addrs bt (i + 1) bound (nft + bt)
                (acc @ [\<lparr>fi_address = addrs ! nat (i mod ?L), nextForgingTime = nft\<rparr>]) =
              Inr ((acc @ [\<lparr>fi_address = addrs ! nat (i mod ?L), nextForgingTime = nft\<rparr>]) @
                   map (\<lambda>k. \<lparr>fi_address = addrs ! nat ((i + 1 + int k) mod ?L),
                              nextForgingTime = nft + bt + int k * bt\<rparr>) [0..<nat (bound - (i + 1))])"
    proof (rule "1.IH" [OF True])
      show "js_index addrs (js_rem i ?L) = Some (addrs ! nat (i mod ?L))"
        by (simp only: r ix)
    qed (use "1.prems" in simp_all)
    have n: "nat (bound - i) = Suc (nat (bound - (i + 1)))"
      using True by simp
    have up: "[0..<nat (bound - i)] = 0 # map Suc [0..<nat (bound - (i + 1))]"
      unfolding n by (simp add: upt_conv_Cons map_Suc_upt del: upt_Suc)
    have "getValidators_loop addrs bt i bound nft acc =
           getValidators_loop addrs bt (i + 1) bound (nft + bt)
                (acc @ [\<lparr>fi_address = addrs ! nat (i mod ?L), nextForgingTime = nft\<rparr>])"
      using True r ix by (subst getValidators_loop.simps) simp
    also note IH
    finally show ?thesis
      unfolding up by (simp add: o_def algebra_simps)
  qed
qed

lemma sorted_forging_times:
  assumes "0 < (bt::int)"
  shows "sorted_wrt (<) (map (\<lambda>k. t + int k * bt) [0..<n])"
proof -
  have "sorted_wrt (\<lambda>x y. t + int x * bt < t + int y * bt) [0..<n]"
    by (rule sorted_wrt_mono_rel [of _ "(<)"]) (use assms in auto)
  then show ?thesis by (simp add: sorted_wrt_map)
qed

lemma getValidators_eq:
  assumes "0 \<le> getSlotNumber c now"
    and "numberOfValidators c \<le> length (validators c)"
  shows "getValidators c now =
           Inr (map (\<lambda>k. \<lparr>fi_address = validators c !
                              nat ((getSlotNumber c now mod int (numberOfValidators c) + int k)
                                     mod int (length (validators c))),
                            nextForgingTime = getSlotTime c (getSlotNumber c now) + int k * slots_blockTime c\<rparr>)
                  [0..<numberOfValidators c])"
proof (cases "numberOfValidators c = 0")
  case True
  then show ?thesis by (simp add: getValidators_def js_rem_def)
next
  case False
  let ?N = "int (numberOfValidators c)" and ?slot = "getSlotNumber c now"
  have pos: "0 < ?N" using False by simp
  have r: "js_rem ?slot ?N = Some (?slot mod ?N)"
    using assms(1) pos by (simp add: js_rem_def smod_mod_positive)
  have i0: "0 \<le> ?slot mod ?N" using pos by simp
  have len: "0 < length (validators c)" using False assms(2) by (cases "validators c") auto
  have "getValidators c now =
          getValidators_loop (validators c) (slots_blockTime c) (?slot mod ?N) (?slot mod ?N + ?N)
            (getSlotTime c ?slot) []"
    by (simp add: getValidators_def Let_def r)
  also have "\<dots> = Inr ([] @ map (\<lambda>k. \<lparr>fi_address = validators c ! nat ((?slot mod ?N + int k) mod int (length (validators c))),
                           nextForgingTime = getSlotTime c ?slot + int k * slots_blockTime c\<rparr>)
                        [0..<nat (?slot mod ?N + ?N - ?slot mod ?N)])"
    by (rule getValidators_loop_ok [OF i0 len])
  finally show ?thesis by simp
qed

text \<open>
  Outside the conditions of the theorem below the claim fails. Before the first slot
  (a negative slot number) the action throws a \<open>TypeError\<close>. With a block time of 0 all
  forging times are equal. With fewer validators in the list than \<open>numberOfValidators\<close>,
  here two against three in slot 5, there is no validator at index
  \<open>slot mod numberOfValidators\<close>, and the first entry is the validator at index 0.
\<close>

theorem C9_outside_domain_counterexample:
  "getSlotNumber example_chain_view (- 5) = - 1 \<and>
   getValidators example_chain_view (- 5) =
     Inl (TypeError ''Cannot read property toString of undefined'') \<and>
   getValidators (example_chain_view\<lparr>slots_blockTime := 0\<rparr>) 47 =
     Inr [\<lparr>fi_address = ''v1'', nextForgingTime = 40\<rparr>,
          \<lparr>fi_address = ''v2'', nextForgingTime = 40\<rparr>,
          \<lparr>fi_address = ''v0'', nextForgingTime = 40\<rparr>] \<and>
   getSlotNumber example_chain_view 50 mod int (numberOfValidators example_chain_view) = 2 \<and>
   getValidators (example_chain_view\<lparr>validators := [''v0'', ''v1'']\<rparr>) 50 =
     Inr [\<lparr>fi_address = ''v0'', nextForgingTime = 50\<rparr>,
          \<lparr>fi_address = ''v1'', nextForgingTime = 60\<rparr>,
          \<lparr>fi_address = ''v0'', nextForgingTime = 70\<rparr>]"
  by (simp add: getValidators_def example_chain_view_def Let_def js_rem_def js_index_def
      smod_int_alt_def)

text \<open>
  Claim C9 (amended). When the current slot is not negative, the chain's validator list
  has at least \<open>numberOfValidators\<close> entries, the block time is positive and the forging
  times stay within \<open>2 ^ 53\<close>, \<open>getValidators\<close> returns exactly \<open>numberOfValidators\<close>
  entries; entry \<open>k\<close> has the forging time of the current slot's start plus \<open>k\<close> block
  times, so the times increase strictly by \<open>blockTime\<close> from the slot time of the
  current slot on; the first entry is the validator at index
  \<open>slot mod numberOfValidators\<close>, and entry \<open>k\<close> the validator at that index plus \<open>k\<close>,
  taken modulo the length of the validator list.
\<close>

theorem C9_getValidators_schedule:
  assumes "0 \<le> getSlotNumber c now"
    and "numberOfValidators c \<le> length (validators c)"
    and "0 < slots_blockTime c"
    and "\<bar>getSlotTime c (getSlotNumber c now)\<bar> + int (numberOfValidators c) * slots_blockTime c \<le> 2 ^ 53"
  shows "\<exists>forgersInfo.
           getValidators c now = Inr forgersInfo \<and>
           length forgersInfo = numberOfValidators c \<and>
           (\<forall>k < length forgersInfo.
              nextForgingTime (forgersInfo ! k) =
                getSlotTime c (getSlotNumber c now) + int k * slots_blockTime c \<and>
              fi_address (forgersInfo ! k) =
                validators c ! nat ((getSlotNumber c now mod int (numberOfValidators c) + int k)
                                      mod int (length (validators c)))) \<and>
           (\<forall>k. Suc k < length forgersInfo \<longrightarrow>
              nextForgingTime (forgersInfo ! Suc k) = nextForgingTime (forgersInfo ! k) + slots_blockTime c) \<and>
           sorted_wrt (<) (map nextForgingTime forgersInfo) \<and>
           (forgersInfo \<noteq> [] \<longrightarrow>
              hd forgersInfo =
                \<lparr>fi_address = validators c ! nat (getSlotNumber c now mod int (numberOfValidators c)),
                 nextForgingTime = getSlotTime c (getSlotNumber c now)\<rparr>)"
proof -
  let ?f = "\<lambda>k. \<lparr>fi_address = validators c !
                              nat ((getSlotNumber c now mod int (numberOfValidators c) + int k)
                                     mod int (length (validators c))),
                            nextForgingTime = getSlotTime c (getSlotNumber c now) + int k * slots_blockTime c\<rparr>"
  let ?infos = "map ?f [0..<numberOfValidators c]"
  have e: "getValidators c now = Inr ?infos"
    using assms(1,2) by (rule getValidators_eq)
  have l: "length ?infos = numberOfValidators c" by simp
  have s: "sorted_wrt (<) (map nextForgingTime ?infos)"
    using sorted_forging_times [OF assms(3)] by (simp add: o_def)
  have h: "hd ?infos = \<lparr>fi_address = validators c ! nat (getSlotNumber c now mod int (numberOfValidators c)),
                 nextForgingTime = getSlotTime c (getSlotNumber c now)\<rparr>" if "?infos \<noteq> []"
  proof -
    from that have pos: "0 < numberOfValidators c" by simp
    then have "getSlotNumber c now mod int (numberOfValidators c) < int (length (validators c))"
      using assms(2) by (smt (verit) of_nat_0_less_iff of_nat_le_iff pos_mod_bound)
    moreover have "0 \<le> getSlotNumber c now mod int (numberOfValidators c)"
      using pos by simp
    ultimately show ?thesis
      using pos by (simp add: hd_map upt_conv_Cons)
  qed
  have k: "\<forall>k < length ?infos. nextForgingTime (?infos ! k) =
                getSlotTime c (getSlotNumber c now) + int k * slots_blockTime c \<and>
              fi_address (?infos ! k) =
                validators c ! nat ((getSlotNumber c now mod int (numberOfValidators c) + int k)
                                      mod int (length (validators c)))"
    by simp
  have d: "\<forall>k. Suc k < length ?infos \<longrightarrow>
              nextForgingTime (?infos ! Suc k) = nextForgingTime (?infos ! k) + slots_blockTime c"
    by (simp add: algebra_simps)
  show ?thesis using e l s h k d by blast
qed

theorem C9_getValidators_schedule_witness:
  "(0::int) \<le> getSlotNumber example_chain_view 47 \<and>
   numberOfValidators example_chain_view \<le> length (validators example_chain_view) \<and>
   0 < slots_blockTime example_chain_view \<and>
   \<bar>getSlotTime example_chain_view (getSlotNumber example_chain_view 47)\<bar>
      + int (numberOfValidators example_chain_view) * slots_blockTime example_chain_view \<le> 2 ^ 53 \<and>
   getValidators example_chain_view 47 =
     Inr [\<lparr>fi_address = ''v1'', nextForgingTime = 40\<rparr>,
          \<lparr>fi_address = ''v2'', nextForgingTime = 50\<rparr>,
          \<lparr>fi_address = ''v0'', nextForgingTime = 60\<rparr>]"
proof -
  have a: "0 \<le> getSlotNumber example_chain_view 47"
    and b: "numberOfValidators example_chain_view \<le> length (validators example_chain_view)"
    and c: "0 < slots_blockTime example_chain_view"
    and d: "\<bar>getSlotTime example_chain_view (getSlotNumber example_chain_view 47)\<bar>
      + int (numberOfValidators example_chain_view) * slots_blockTime example_chain_view \<le> 2 ^ 53"
    by (simp_all add: example_chain_view_def)
  from C9_getValidators_schedule [OF a b c d] obtain infos where
    i: "getValidators example_chain_view 47 = Inr infos" and
    l: "length infos = numberOfValidators example_chain_view" and
    k: "\<forall>k < length infos.
              nextForgingTime (infos ! k) =
                getSlotTime example_chain_view (getSlotNumber example_chain_view 47) + int k * slots_blockTime example_chain_view \<and>
              fi_address (infos ! k) =
                validators example_chain_view ! nat ((getSlotNumber example_chain_view 47 mod int (numberOfValidators example_chain_view) + int k) mod int (length (validators example_chain_view)))"
    by blast
  from l have len: "length infos = 3" by (simp add: example_chain_view_def)
  then obtain x y z where xyz: "infos = [x, y, z]"
    by (metis (no_types) length_0_conv length_Suc_conv numeral_3_eq_3)
  from k have "nextForgingTime x = 40 \<and> fi_address x = ''v1''"
    "nextForgingTime y = 50 \<and> fi_address y = ''v2''"
    "nextForgingTime z = 60 \<and> fi_address z = ''v0''"
    unfolding xyz by (simp_all add: example_chain_view_def All_less_Suc numeral_3_eq_3 nth_Cons')
  then have "infos = [\<lparr>fi_address = ''v1'', nextForgingTime = 40\<rparr>,
          \<lparr>fi_address = ''v2'', nextForgingTime = 50\<rparr>,
          \<lparr>fi_address = ''v0'', nextForgingTime = 60\<rparr>]"
    unfolding xyz by simp
  with i a b c d show ?thesis by simp
qed

subsection \<open>C10: \<open>registerMultisignature\<close>\<close>









end
